theory Spec2Isabelle
  imports Complex_Main
begin

section \<open>hnn-core: dipole post-processing (dipole.py) and its plotting accessors (viz.py)\<close>

text \<open>
  Conventions of the embedding.
  \<^item> A Python/numpy float is a \<^typ>\<open>real\<close>: arithmetic is exact, there is no rounding,
    no infinity and no NaN. Where the float computation leaves the reals (a division by
    zero) the model has an explicit error branch.
  \<^item> A Python int is an \<^typ>\<open>int\<close>.
  \<^item> A one-dimensional numpy array is a list; a two-dimensional one is the list of its rows.
  \<^item> A method that mutates \<open>self\<close> takes the Dipole and returns the Dipole as the call leaves it,
    paired with the outcome of the call: \<open>Inl e\<close> when the call raises \<open>e\<close>, \<open>Inr v\<close> when it
    returns \<open>v\<close>. The Dipole of the pair is meaningful in both cases, so a mutation made before a
    raise is visible.
\<close>

subsection \<open>Errors\<close>

text \<open>One constructor for each \<open>raise\<close> of the two source files that the model reaches, and
  one for each exception of the Python runtime or of numpy that it reaches.\<close>

datatype error =
    NeedTwoDipoles              \<comment> \<open>ValueError, dipole.py:151\<close>
  | AlreadyAverage nat int      \<comment> \<open>ValueError, dipole.py:156, with \<open>dpl_idx\<close> and \<open>dpl.nave\<close>\<close>
  | NeitherWindowNorFreq        \<comment> \<open>ValueError, dipole.py:285\<close>
  | BothWindowAndFreq           \<comment> \<open>ValueError, dipole.py:287\<close>
  | WindowTooLong real nat      \<comment> \<open>ValueError, dipole.py:292, with \<open>winsz\<close> and \<open>len(self.times)\<close>\<close>
  | NegativeFreq                \<comment> \<open>ValueError, dipole.py:304\<close>
  | NotBelowNyquist             \<comment> \<open>ValueError, dipole.py:306 and dipole.py:48 (same message)\<close>
  | DecimNotIntOrList           \<comment> \<open>ValueError, viz.py:44\<close>
  | NfftExceedsTimes int int    \<comment> \<open>ValueError, viz.py:522, with \<open>n_fft\<close> and \<open>n\<close>\<close>
  | OverlapTooLarge int int     \<comment> \<open>ValueError, viz.py:529, with \<open>n_overlap\<close> and \<open>n_per_seg\<close>\<close>
  | PaddingNotString            \<comment> \<open>ValueError, viz.py:413\<close>
  | IndexError                  \<comment> \<open>index out of range, boolean mask of the wrong length\<close>
  | KeyError                    \<comment> \<open>missing dictionary key\<close>
  | ShapeError                  \<comment> \<open>numpy ValueError: operands or rows of different shapes\<close>
  | NegativeDimension           \<comment> \<open>numpy ValueError: negative dimensions are not allowed\<close>
  | SliceStepZero               \<comment> \<open>ValueError: slice step cannot be zero\<close>
  | TypeError                   \<comment> \<open>a value of the wrong type reaches an operation\<close>
  | ZeroDivision                \<comment> \<open>float division by zero: ZeroDivisionError for Python floats,
                                    inf or nan for numpy scalars\<close>
  | NotFollowed                 \<comment> \<open>no exception: Python goes on with a value that the model has
                                    no type for\<close>

subsection \<open>numpy operations on one-dimensional arrays\<close>

text \<open>Elementwise binary operation with numpy's broadcasting of a length-1 operand.\<close>

definition np_binop :: "(real \<Rightarrow> real \<Rightarrow> real) \<Rightarrow> real list \<Rightarrow> real list \<Rightarrow> error + real list" where
  "np_binop f xs ys =
     (if length xs = length ys then Inr (map2 f xs ys)
      else if length xs = 1 then Inr (map (f (hd xs)) ys)
      else if length ys = 1 then Inr (map (\<lambda>x. f x (hd ys)) xs)
      else Inl ShapeError)"

text \<open>\<open>a[mask]\<close> for a boolean mask of the length of \<open>a\<close>: the selected entries, in order.\<close>

fun mask_get :: "bool list \<Rightarrow> 'a list \<Rightarrow> 'a list" where
  "mask_get (m # ms) (x # xs) = (if m then x # mask_get ms xs else mask_get ms xs)"
| "mask_get _ _ = []"

text \<open>\<open>a[mask] = vs\<close> for a boolean mask of the length of \<open>a\<close> and one value for each selected
  entry: the k-th selected entry receives the k-th value.\<close>

fun mask_put :: "bool list \<Rightarrow> 'a list \<Rightarrow> 'a list \<Rightarrow> 'a list" where
  "mask_put (m # ms) (x # xs) vs =
     (if m then (case vs of [] \<Rightarrow> x # mask_put ms xs [] | v # vs' \<Rightarrow> v # mask_put ms xs vs')
      else x # mask_put ms xs vs)"
| "mask_put _ xs _ = xs"

text \<open>\<open>a[mask] -= c\<close> with a scalar \<open>c\<close>: numpy reads \<open>a[mask]\<close> (IndexError when the mask has
  another length than \<open>a\<close>), subtracts, and writes the result back through the mask.\<close>

definition isub_mask_scalar :: "bool list \<Rightarrow> real \<Rightarrow> real list \<Rightarrow> error + real list" where
  "isub_mask_scalar msk c a =
     (if length msk \<noteq> length a then Inl IndexError
      else Inr (mask_put msk a (map (\<lambda>v. v - c) (mask_get msk a))))"

text \<open>\<open>a[mask] -= vs\<close> with an array \<open>vs\<close>.\<close>

definition isub_mask_array :: "bool list \<Rightarrow> real list \<Rightarrow> real list \<Rightarrow> error + real list" where
  "isub_mask_array msk vs a =
     (if length msk \<noteq> length a then Inl IndexError
      else (case np_binop (-) (mask_get msk a) vs of
              Inl e \<Rightarrow> Inl e
            | Inr r \<Rightarrow> if length r = length (mask_get msk a) then Inr (mask_put msk a r)
                      else Inl ShapeError))"

subsection \<open>The Dipole class\<close>

text \<open>
  \<open>self.data\<close> is a dict whose keys the constructor fixes to \<open>'agg'\<close>, \<open>'L2'\<close>, \<open>'L5'\<close>, in this
  order; no code of the two files adds or removes a key. It is embedded as the three fields
  \<open>agg\<close>, \<open>L2\<close>, \<open>L5\<close>; a loop over \<open>self.data.keys()\<close> visits them in this order, and a lookup
  by a key given as a string is \<open>data_get\<close>. The three arrays are disjoint columns of the
  constructor's argument, so an in-place update of one never changes another.
\<close>

record Dipole =
  units :: string
  N :: nat
  times_arr :: "real list"
  agg :: "real list"
  L2 :: "real list"
  L5 :: "real list"
  nave :: int
  sfreq :: real

definition data_get :: "Dipole \<Rightarrow> string \<Rightarrow> error + real list" where
  "data_get d key =
     (if key = ''agg'' then Inr (agg d)
      else if key = ''L2'' then Inr (L2 d)
      else if key = ''L5'' then Inr (L5 d)
      else Inl KeyError)"

text \<open>\<open>data[:, j]\<close> of a two-dimensional array with \<open>ncols\<close> columns, given as its rows.\<close>

definition column :: "nat \<Rightarrow> real list list \<Rightarrow> real list" where
  "column j rows = map (\<lambda>r. r ! j) rows"

text \<open>
  \<open>Dipole.__init__(times, data, nave=1)\<close>. \<open>data\<close> is the list of the rows of an array with
  \<open>ncols\<close> columns (every row has that length). \<open>data[:, 2]\<close> raises IndexError with fewer than
  three columns, \<open>times[1]\<close> with fewer than two samples.
\<close>

definition Dipole_init :: "real list \<Rightarrow> nat \<Rightarrow> real list list \<Rightarrow> int \<Rightarrow> error + Dipole" where
  "Dipole_init ts ncols data nave0 =
     (if \<not> list_all (\<lambda>r. length r = ncols) data then Inl ShapeError
      else if ncols < 3 then Inl IndexError
      else if length ts < 2 then Inl IndexError
      else if ts ! 1 - ts ! 0 = 0 then Inl ZeroDivision
      else Inr \<lparr> units = ''fAm'', N = length data, times_arr = ts,
                 agg = column 0 data, L2 = column 1 data, L5 = column 2 data,
                 nave = nave0, sfreq = 1000 / (ts ! 1 - ts ! 0) \<rparr>)"

text \<open>The shapes the class docstring asks for (\<open>times\<close> of shape \<open>(n_times,)\<close>, one value of
  each layer for each sample) together with what the constructor needs to return
  (\<open>times[1]\<close> exists). The constructor does not compare \<open>len(times)\<close> with the rows of
  \<open>data\<close>.\<close>

definition Dipole_ok :: "Dipole \<Rightarrow> bool" where
  "Dipole_ok d \<longleftrightarrow>
     2 \<le> length (times_arr d) \<and> length (agg d) = length (times_arr d) \<and>
     length (L2 d) = length (times_arr d) \<and> length (L5 d) = length (times_arr d)"

subsection \<open>baseline\_renormalize\<close>

text \<open>
  The steps of \<open>Dipole.baseline_renormalize\<close> in the order of the source. The L2 offset is
  subtracted in place before the first masked access to L5, so when that access raises
  (mask of another length than L5) the returned Dipole already has the corrected L2.
  The source's literals \<open>3.4770508e-3\<close> and \<open>1.01e-4\<close> are written out as decimals.
\<close>

definition baseline_renormalize :: "int \<Rightarrow> int \<Rightarrow> Dipole \<Rightarrow> Dipole \<times> (error + unit)" where
  "baseline_renormalize N_pyr_x N_pyr_y d =
     (if units d \<noteq> ''fAm'' then (d, Inr ())
      else
        let N_pyr = N_pyr_x * N_pyr_y;
            offset_L2 = of_int N_pyr * 0.0443;
            offset_L5 = of_int N_pyr * (- 49.0502);
            d1 = d\<lparr>L2 := map (\<lambda>v. v - offset_L2) (L2 d)\<rparr>;
            m = 0.0034770508;
            b = - 51.231085;
            t1 = 750;
            m1 = 0.000101;
            b1 = - 48.412078;
            ts = times_arr d1;
            mask_a = map (\<lambda>t. t \<le> 37) ts;
            mask_b = map (\<lambda>t. t > 37 \<and> t < t1) ts;
            mask_c = map (\<lambda>t. t \<ge> t1) ts
        in case isub_mask_scalar mask_a offset_L5 (L5 d1) of
             Inl e \<Rightarrow> (d1, Inl e)
           | Inr l5a \<Rightarrow>
             let d2 = d1\<lparr>L5 := l5a\<rparr> in
             (case isub_mask_array mask_b
                     (map (\<lambda>t. of_int N_pyr * (m * t + b)) (mask_get mask_b ts)) (L5 d2) of
                Inl e \<Rightarrow> (d2, Inl e)
              | Inr l5b \<Rightarrow>
                let d3 = d2\<lparr>L5 := l5b\<rparr> in
                (case isub_mask_array mask_c
                        (map (\<lambda>t. of_int N_pyr * (m1 * t + b1)) (mask_get mask_c ts)) (L5 d3) of
                   Inl e \<Rightarrow> (d3, Inl e)
                 | Inr l5c \<Rightarrow>
                   let d4 = d3\<lparr>L5 := l5c\<rparr> in
                   (case np_binop (+) (L2 d4) (L5 d4) of
                      Inl e \<Rightarrow> (d4, Inl e)
                    | Inr s \<Rightarrow> (d4\<lparr>agg := s\<rparr>, Inr ())))))"

text \<open>The body of \<open>baseline_renormalize\<close> after the units check, with the two constant
  offsets and the two linear offsets as arguments; \<open>baseline_unfold\<close> below shows that
  \<open>baseline_renormalize\<close> is this function at the source's constants.\<close>

definition baseline_core ::
  "real \<Rightarrow> real \<Rightarrow> (real \<Rightarrow> real) \<Rightarrow> (real \<Rightarrow> real) \<Rightarrow> Dipole \<Rightarrow> Dipole \<times> (error + unit)" where
  "baseline_core offset_L2 offset_L5 g2 g3 d =
     (let d1 = d\<lparr>L2 := map (\<lambda>v. v - offset_L2) (L2 d)\<rparr>;
          ts = times_arr d1;
          mask_a = map (\<lambda>t. t \<le> 37) ts;
          mask_b = map (\<lambda>t. t > 37 \<and> t < 750) ts;
          mask_c = map (\<lambda>t. t \<ge> 750) ts
      in case isub_mask_scalar mask_a offset_L5 (L5 d1) of
           Inl e \<Rightarrow> (d1, Inl e)
         | Inr l5a \<Rightarrow>
           let d2 = d1\<lparr>L5 := l5a\<rparr> in
           (case isub_mask_array mask_b (map g2 (mask_get mask_b ts)) (L5 d2) of
              Inl e \<Rightarrow> (d2, Inl e)
            | Inr l5b \<Rightarrow>
              let d3 = d2\<lparr>L5 := l5b\<rparr> in
              (case isub_mask_array mask_c (map g3 (mask_get mask_c ts)) (L5 d3) of
                 Inl e \<Rightarrow> (d3, Inl e)
               | Inr l5c \<Rightarrow>
                 let d4 = d3\<lparr>L5 := l5c\<rparr> in
                 (case np_binop (+) (L2 d4) (L5 d4) of
                    Inl e \<Rightarrow> (d4, Inl e)
                  | Inr s \<Rightarrow> (d4\<lparr>agg := s\<rparr>, Inr ())))))"

subsection \<open>average\_dipoles\<close>

text \<open>\<open>np.mean(np.array(rows), axis=0)\<close>: numpy adds the rows elementwise (\<open>add.reduce\<close> along
  axis 0, starting from zero) and divides each sum by the number of rows. Rows of different
  lengths do not form a two-dimensional array. With no row there is nothing to average
  (numpy returns nan).\<close>

definition np_mean_axis0 :: "real list list \<Rightarrow> error + real list" where
  "np_mean_axis0 rows =
     (case rows of
        [] \<Rightarrow> Inl ZeroDivision
      | r # rs \<Rightarrow>
          if \<not> list_all (\<lambda>q. length q = length r) rs then Inl ShapeError
          else Inr (map (\<lambda>s. s / of_nat (length rows))
                      (foldl (map2 (+)) (replicate (length r) 0) rows)))"

text \<open>\<open>np.c_[a, b, c]\<close> for one-dimensional arrays: the rows of the array whose columns are
  \<open>a\<close>, \<open>b\<close>, \<open>c\<close>.\<close>

definition np_c3 :: "real list \<Rightarrow> real list \<Rightarrow> real list \<Rightarrow> error + real list list" where
  "np_c3 a b c =
     (if length a = length b \<and> length b = length c
      then Inr (map (\<lambda>(x, y, z). [x, y, z]) (zip a (zip b c)))
      else Inl ShapeError)"

text \<open>The loop \<open>for dpl_idx, dpl in enumerate(dpls)\<close>: the first Dipole with \<open>nave > 1\<close>
  raises, with its index.\<close>

fun check_nave :: "nat \<Rightarrow> Dipole list \<Rightarrow> error option" where
  "check_nave dpl_idx [] = None"
| "check_nave dpl_idx (dpl # dpls) =
     (if nave dpl > 1 then Some (AlreadyAverage dpl_idx (nave dpl))
      else check_nave (Suc dpl_idx) dpls)"

text \<open>\<open>average_dipoles\<close> reads its inputs and builds a new Dipole; it mutates nothing.\<close>

definition average_dipoles :: "Dipole list \<Rightarrow> error + Dipole" where
  "average_dipoles dpls =
     (if length dpls < 2 then Inl NeedTwoDipoles
      else case check_nave 0 dpls of
        Some e \<Rightarrow> Inl e
      | None \<Rightarrow>
        (case np_mean_axis0 (map agg dpls) of Inl e \<Rightarrow> Inl e | Inr agg_avg \<Rightarrow>
        (case np_mean_axis0 (map L2 dpls) of Inl e \<Rightarrow> Inl e | Inr L2_avg \<Rightarrow>
        (case np_mean_axis0 (map L5 dpls) of Inl e \<Rightarrow> Inl e | Inr L5_avg \<Rightarrow>
        (case np_c3 agg_avg L2_avg L5_avg of Inl e \<Rightarrow> Inl e | Inr avg_dpl_data \<Rightarrow>
        (case Dipole_init (times_arr (dpls ! 0)) 3 avg_dpl_data 1 of Inl e \<Rightarrow> Inl e
         | Inr avg_dpl \<Rightarrow> Inr (avg_dpl\<lparr>nave := int (length dpls)\<rparr>)))))))"

subsection \<open>Functions of numpy, scipy and mne\<close>

text \<open>
  The source calls numerical routines that are not part of the repository. They are the
  fields of a record that every function calling one of them takes as its first argument;
  nothing is assumed about them except where a theorem says so. A routine that can raise
  returns a sum.
  \<^item> \<open>np_hamming M\<close>: \<open>numpy.hamming(M)\<close>, called by the source with a float \<open>M\<close>.
  \<^item> \<open>np_convolve_same x win\<close>: \<open>numpy.convolve(x, win, 'same')\<close>.
  \<^item> \<open>sp_savgol_filter data window_length\<close>:
    \<open>scipy.signal.savgol_filter(data, axis=-1, polyorder=5, window_length=window_length)\<close>.
  \<^item> \<open>sp_decimate data dec\<close>: \<open>scipy.signal.decimate(data, dec)\<close>.
  \<^item> \<open>mne_tfr_array_morlet data sfreq freqs n_cycles\<close>:
    \<open>tfr_array_morlet(data[None, None, :], sfreq=sfreq, freqs=freqs, n_cycles=n_cycles,
    output='power')[0, 0]\<close>, one row of power values for each frequency.
\<close>

text \<open>A Python value as far as the arguments \<open>decim\<close> and \<open>padding\<close> need it.\<close>

datatype pyobj = PyNone | PyInt int | PyFloat real | PyStr string | PyList "pyobj list"

record extern =
  np_hamming :: "real \<Rightarrow> real list"
  np_convolve_same :: "real list \<Rightarrow> real list \<Rightarrow> error + real list"
  sp_savgol_filter :: "real list \<Rightarrow> int \<Rightarrow> error + real list"
  sp_decimate :: "real list \<Rightarrow> pyobj \<Rightarrow> error + real list"
  mne_tfr_array_morlet :: "real list \<Rightarrow> real \<Rightarrow> real list \<Rightarrow> real list \<Rightarrow> error + real list list"

subsection \<open>smooth\<close>

text \<open>\<open>_hammfilt(x, winsz)\<close>. \<open>win /= sum(win)\<close> divides by the sum of the window; a zero sum
  leaves the reals.\<close>

definition hammfilt :: "extern \<Rightarrow> real list \<Rightarrow> real \<Rightarrow> error + real list" where
  "hammfilt lib x winsz =
     (let win = np_hamming lib winsz in
      if sum_list win = 0 then Inl ZeroDivision
      else np_convolve_same lib x (map (\<lambda>w. w / sum_list win) win))"

text \<open>\<open>numpy.round\<close> rounds a half to the even neighbour.\<close>

definition np_round :: "real \<Rightarrow> int" where
  "np_round x =
     (let f = \<lfloor>x\<rfloor> in
      if x - of_int f < 1 / 2 then f
      else if x - of_int f > 1 / 2 then f + 1
      else if even f then f else f + 1)"

text \<open>\<open>_savgol_filter(data, h_freq, sfreq)\<close>. The check against half the sample rate is its
  first statement. \<open>sfreq / h_freq\<close> with \<open>h_freq = 0\<close> raises (ZeroDivisionError, or
  OverflowError when \<open>int\<close> receives numpy's inf). Python's \<open>//\<close> on ints is \<open>div\<close>.\<close>

definition savgol_filter :: "extern \<Rightarrow> real list \<Rightarrow> real \<Rightarrow> real \<Rightarrow> error + real list" where
  "savgol_filter lib data h_freq sfreq0 =
     (if h_freq \<ge> sfreq0 / 2 then Inl NotBelowNyquist
      else if h_freq = 0 then Inl ZeroDivision
      else let window_length = (np_round (sfreq0 / h_freq) div 2) * 2 + 1
           in sp_savgol_filter lib data window_length)"

text \<open>What a call of \<open>smooth\<close> returns: \<open>None\<close> from the bare \<open>return\<close> of the zero-length
  window, \<open>self\<close> at the end.\<close>

datatype retval = RetNone | RetSelf

text \<open>The two loops \<open>for key in self.data.keys(): self.data[key] = f(self.data[key])\<close>, over
  the keys in the order agg, L2, L5. A filter that raises leaves the layers before it
  replaced and the others as they were.\<close>

definition filter_layers :: "(real list \<Rightarrow> error + real list) \<Rightarrow> Dipole \<Rightarrow> Dipole \<times> (error + retval)" where
  "filter_layers f d =
     (case f (agg d) of
        Inl e \<Rightarrow> (d, Inl e)
      | Inr a \<Rightarrow>
        let d1 = d\<lparr>agg := a\<rparr> in
        (case f (L2 d1) of
           Inl e \<Rightarrow> (d1, Inl e)
         | Inr b \<Rightarrow>
           let d2 = d1\<lparr>L2 := b\<rparr> in
           (case f (L5 d2) of
              Inl e \<Rightarrow> (d2, Inl e)
            | Inr c \<Rightarrow> (d2\<lparr>L5 := c\<rparr>, Inr RetSelf))))"

text \<open>\<open>Dipole.smooth(*, window_len=None, h_freq=None)\<close>; \<open>1e-3\<close> is written \<open>0.001\<close>.\<close>

definition smooth :: "extern \<Rightarrow> real option \<Rightarrow> real option \<Rightarrow> Dipole \<Rightarrow> Dipole \<times> (error + retval)" where
  "smooth lib window_len h_freq d =
     (if window_len = None \<and> h_freq = None then (d, Inl NeitherWindowNorFreq)
      else if window_len \<noteq> None \<and> h_freq \<noteq> None then (d, Inl BothWindowAndFreq)
      else case window_len of
        Some wl \<Rightarrow>
          let winsz = 0.001 * wl * sfreq d in
          if winsz > of_nat (length (times_arr d))
          then (d, Inl (WindowTooLong winsz (length (times_arr d))))
          else if winsz \<le> 1 then (d, Inr RetNone)
          else filter_layers (\<lambda>x. hammfilt lib x winsz) d
      | None \<Rightarrow>
        (case h_freq of
           Some h \<Rightarrow>
             if h < 0 then (d, Inl NegativeFreq)
             else if h > 0.5 * sfreq d then (d, Inl NotBelowNyquist)
             else filter_layers (\<lambda>x. savgol_filter lib x h (sfreq d)) d
         | None \<Rightarrow> (d, Inr RetSelf)))"

subsection \<open>viz.py: \_get\_plot\_data\<close>

text \<open>\<open>_get_plot_data(dpl, layer, tmin, tmax, scaling=1)\<close>. \<open>dpl.times[0]\<close> and
  \<open>dpl.times[-1]\<close> raise IndexError on an empty array, \<open>dpl.data[layer]\<close> raises KeyError
  for an unknown layer, and the mask has to have the length of the layer. Nothing is
  mutated.\<close>

definition get_plot_data ::
  "Dipole \<Rightarrow> string \<Rightarrow> real option \<Rightarrow> real option \<Rightarrow> real \<Rightarrow> error + (real list \<times> real list)" where
  "get_plot_data dpl layer tmin tmax scaling =
     (if times_arr dpl = [] then Inl IndexError
      else
        let plot_tmin = (case tmin of None \<Rightarrow> hd (times_arr dpl)
                                    | Some t \<Rightarrow> max t (hd (times_arr dpl)));
            plot_tmax = (case tmax of None \<Rightarrow> last (times_arr dpl)
                                    | Some t \<Rightarrow> min t (last (times_arr dpl)));
            msk = map (\<lambda>t. t \<ge> plot_tmin \<and> t < plot_tmax) (times_arr dpl);
            times1 = mask_get msk (times_arr dpl)
        in case data_get dpl layer of
             Inl e \<Rightarrow> Inl e
           | Inr x \<Rightarrow>
               if length msk \<noteq> length x then Inl IndexError
               else Inr (map (\<lambda>v. scaling * v) (mask_get msk x), times1))"

subsection \<open>viz.py: \_decimate\_plot\_data\<close>

text \<open>\<open>xs[::k]\<close> for a positive \<open>k\<close>: the first element and then every k-th.\<close>

fun stride :: "nat \<Rightarrow> 'a list \<Rightarrow> 'a list" where
  "stride k [] = []"
| "stride k (x # xs) = x # stride k (drop (k - 1) xs)"

text \<open>\<open>times[::dec]\<close>: a zero step raises ValueError, a negative step walks backwards from
  the last element, \<open>None\<close> is the step 1, and any other object is no slice index.\<close>

definition slice_step :: "pyobj \<Rightarrow> 'a list \<Rightarrow> error + 'a list" where
  "slice_step dec xs =
     (case dec of
        PyInt k \<Rightarrow>
          if k = 0 then Inl SliceStepZero
          else if k > 0 then Inr (stride (nat k) xs)
          else Inr (stride (nat (- k)) (rev xs))
      | PyNone \<Rightarrow> Inr xs
      | _ \<Rightarrow> Inl TypeError)"

text \<open>The loop \<open>for dec in decim: data = decimate(data, dec); times = times[::dec]\<close>.\<close>

fun decimate_loop ::
  "extern \<Rightarrow> pyobj list \<Rightarrow> real list \<Rightarrow> real list \<Rightarrow> error + (real list \<times> real list)" where
  "decimate_loop lib [] data ts = Inr (data, ts)"
| "decimate_loop lib (dec # decs) data ts =
     (case sp_decimate lib data dec of
        Inl e \<Rightarrow> Inl e
      | Inr data1 \<Rightarrow>
        (case slice_step dec ts of
           Inl e \<Rightarrow> Inl e
         | Inr ts1 \<Rightarrow> decimate_loop lib decs data1 ts1))"

text \<open>The integer factors of a chain, when all its elements are ints.\<close>

fun int_factors :: "pyobj list \<Rightarrow> int list option" where
  "int_factors [] = Some []"
| "int_factors (PyInt k # ds) = map_option ((#) k) (int_factors ds)"
| "int_factors (_ # ds) = None"

definition fits_int64 :: "int \<Rightarrow> bool" where
  "fits_int64 k \<longleftrightarrow> - (2 ^ 63) \<le> k \<and> k < 2 ^ 63"

text \<open>The value of a product computed in signed 64-bit integers.\<close>

definition wrap_int64 :: "int \<Rightarrow> int" where
  "wrap_int64 x = (x + 2 ^ 63) mod 2 ^ 64 - 2 ^ 63"

text \<open>\<open>sfreq /= np.prod(decim)\<close>. When every element of the chain is an int that fits 64
  bits, \<open>np.prod\<close> multiplies in int64 and wraps silently. A chain with a larger int makes
  an array of another type, which the model does not follow; an element that is not an int
  cannot be multiplied; a zero product leaves the reals.\<close>

definition div_by_prod :: "real \<Rightarrow> pyobj list \<Rightarrow> error + real" where
  "div_by_prod sfreq0 decim =
     (case int_factors decim of
        None \<Rightarrow> Inl TypeError
      | Some ks \<Rightarrow>
          if \<not> list_all fits_int64 ks then Inl NotFollowed
          else if wrap_int64 (prod_list ks) = 0 then Inl ZeroDivision
          else Inr (sfreq0 / of_int (wrap_int64 (prod_list ks))))"

text \<open>\<open>_decimate_plot_data(decim, data, times, sfreq=None)\<close>: an int becomes a chain of one
  factor; anything that is then not a list raises. The result is \<open>(data, times)\<close> without
  a sample rate and \<open>(data, times, sfreq)\<close> with one.\<close>

definition decimate_plot_data ::
  "extern \<Rightarrow> pyobj \<Rightarrow> real list \<Rightarrow> real list \<Rightarrow> real option
     \<Rightarrow> error + (real list \<times> real list \<times> real option)" where
  "decimate_plot_data lib decim data ts sfreq0 =
     (case (case decim of PyInt k \<Rightarrow> PyList [PyInt k] | other \<Rightarrow> other) of
        PyList decs \<Rightarrow>
          (case decimate_loop lib decs data ts of
             Inl e \<Rightarrow> Inl e
           | Inr (data1, ts1) \<Rightarrow>
             (case sfreq0 of
                None \<Rightarrow> Inr (data1, ts1, None)
              | Some r \<Rightarrow>
                (case div_by_prod r decs of
                   Inl e \<Rightarrow> Inl e
                 | Inr r1 \<Rightarrow> Inr (data1, ts1, Some r1))))
      | _ \<Rightarrow> Inl DecimNotIntOrList)"

subsection \<open>viz.py: \_check\_nfft and plot\_psd\_welch\<close>

definition check_nfft :: "int \<Rightarrow> int \<Rightarrow> int option \<Rightarrow> int \<Rightarrow> error + (int \<times> int \<times> int)" where
  "check_nfft n n_fft n_per_seg n_overlap =
     (if n_per_seg = None \<and> n_fft > n then Inl (NfftExceedsTimes n_fft n)
      else
        let n_per_seg1 = (case n_per_seg of None \<Rightarrow> n_fft
                          | Some p \<Rightarrow> if p > n_fft then n_fft else p);
            n_per_seg2 = (if n_per_seg1 > n then n else n_per_seg1)
        in if n_overlap \<ge> n_per_seg2 then Inl (OverlapTooLarge n_overlap n_per_seg2)
           else Inr (n_fft, n_per_seg2, n_overlap))"

text \<open>\<open>plot_psd_welch\<close> up to its call of \<open>scipy.signal.welch\<close>: the data of the layer and
  the three lengths the call receives. The estimate itself and the drawing are outside the
  model.\<close>

definition plot_psd_welch ::
  "Dipole \<Rightarrow> int \<Rightarrow> int \<Rightarrow> int option \<Rightarrow> real option \<Rightarrow> real option \<Rightarrow> string
     \<Rightarrow> error + (real list \<times> int \<times> int \<times> int)" where
  "plot_psd_welch dpl n_fft n_overlap n_per_seg tmin tmax layer =
     (case get_plot_data dpl layer tmin tmax 1 of
        Inl e \<Rightarrow> Inl e
      | Inr (data, ts) \<Rightarrow>
        (case check_nfft (int (length ts)) n_fft n_per_seg n_overlap of
           Inl e \<Rightarrow> Inl e
         | Inr (n_fft1, n_per_seg1, n_overlap1) \<Rightarrow> Inr (data, n_fft1, n_per_seg1, n_overlap1)))"

subsection \<open>viz.py: plot\_tfr\_morlet\<close>

text \<open>The padding of lines 411 to 418. \<open>np.zeros((len(data) - 1,))\<close> raises for an empty
  \<open>data\<close>. \<open>data[-1:0:-1]\<close> is \<open>data\<close> without its first element, reversed;
  \<open>data[-2::-1]\<close> is \<open>data\<close> without its last element, reversed. A string other than
  \<open>'zeros'\<close> and \<open>'mirror'\<close> pads nothing.\<close>

definition tfr_pad :: "pyobj \<Rightarrow> real list \<Rightarrow> error + real list" where
  "tfr_pad padding data =
     (case padding of
        PyNone \<Rightarrow> Inr data
      | PyStr p \<Rightarrow>
          if p = ''zeros'' then
            (if data = [] then Inl NegativeDimension
             else Inr (replicate (length data - 1) 0 @ data @ replicate (length data - 1) 0))
          else if p = ''mirror'' then Inr (rev (tl data) @ data @ rev (butlast data))
          else Inr data
      | _ \<Rightarrow> Inl PaddingNotString)"

text \<open>\<open>row[a:b]\<close> with ints \<open>a\<close>, \<open>b\<close>: a negative bound counts from the end, and both are
  clipped to the row.\<close>

definition py_slice :: "int \<Rightarrow> int \<Rightarrow> 'a list \<Rightarrow> 'a list" where
  "py_slice a b xs =
     (let n = int (length xs);
          a1 = (if a < 0 then max (a + n) 0 else min a n);
          b1 = (if b < 0 then max (b + n) 0 else min b n)
      in take (nat (b1 - a1)) (drop (nat a1) xs))"

text \<open>The cropping of lines 425 to 427, applied to the time axis of every row of power;
  \<open>n_times\<close> is \<open>times.shape[0]\<close>.\<close>

definition tfr_crop :: "pyobj \<Rightarrow> nat \<Rightarrow> real list list \<Rightarrow> real list list" where
  "tfr_crop padding n_times pw =
     (if padding \<noteq> PyNone
      then map (py_slice (int n_times - 1) (2 * int n_times - 1)) pw
      else pw)"

text \<open>\<open>plot_tfr_morlet\<close> up to the drawing: the time axis and the power rows that
  \<open>pcolormesh\<close> receives. \<open>_decimate_plot_data\<close> is called with a sample rate and so
  returns one; the branch without one is not reached.\<close>

definition plot_tfr_morlet ::
  "extern \<Rightarrow> Dipole \<Rightarrow> real list \<Rightarrow> real list \<Rightarrow> real option \<Rightarrow> real option \<Rightarrow> string
     \<Rightarrow> pyobj \<Rightarrow> pyobj \<Rightarrow> error + (real list \<times> real list list)" where
  "plot_tfr_morlet lib dpl freqs n_cycles tmin tmax layer decim padding =
     (case get_plot_data dpl layer tmin tmax 1 of
        Inl e \<Rightarrow> Inl e
      | Inr (data0, times0) \<Rightarrow>
        (case (if decim \<noteq> PyNone
               then decimate_plot_data lib decim data0 times0 (Some (sfreq dpl))
               else Inr (data0, times0, Some (sfreq dpl))) of
           Inl e \<Rightarrow> Inl e
         | Inr (data1, times1, None) \<Rightarrow> Inl TypeError
         | Inr (data1, times1, Some sfreq1) \<Rightarrow>
           (case tfr_pad padding data1 of
              Inl e \<Rightarrow> Inl e
            | Inr data2 \<Rightarrow>
              (case mne_tfr_array_morlet lib data2 sfreq1 freqs n_cycles of
                 Inl e \<Rightarrow> Inl e
               | Inr pw \<Rightarrow> Inr (times1, tfr_crop padding (length times1) pw)))))"

subsection \<open>Concrete values and the words of the specification\<close>

text \<open>A Dipole the constructor returns: two samples 0 ms and 1 ms, all layers zero.\<close>

definition dpl_zero2 :: Dipole where
  "dpl_zero2 = \<lparr> units = ''fAm'', N = 2, times_arr = [0, 1],
                 agg = [0, 0], L2 = [0, 0], L5 = [0, 0], nave = 1, sfreq = 1000 \<rparr>"

text \<open>Two single trials on the same time grid, already converted to nAm.\<close>

definition dpl_trial_a :: Dipole where
  "dpl_trial_a = \<lparr> units = ''nAm'', N = 2, times_arr = [0, 0.5],
                   agg = [3, 5], L2 = [1, 2], L5 = [2, 3], nave = 1, sfreq = 2000 \<rparr>"

definition dpl_trial_b :: Dipole where
  "dpl_trial_b = \<lparr> units = ''nAm'', N = 2, times_arr = [0, 0.5],
                   agg = [5, 9], L2 = [3, 4], L5 = [2, 5], nave = 1, sfreq = 2000 \<rparr>"

text \<open>A Dipole of four samples at 1000 Hz.\<close>

definition dpl_ramp4 :: Dipole where
  "dpl_ramp4 = \<lparr> units = ''nAm'', N = 4, times_arr = [0, 1, 2, 3],
                 agg = [5, 7, 9, 11], L2 = [1, 2, 3, 4], L5 = [4, 5, 6, 7], nave = 1, sfreq = 1000 \<rparr>"

text \<open>A library to run the functions on. The filters return their input. \<open>decimate\<close> takes
  every k-th sample for an int \<open>k \<ge> 1\<close> and more than 27 samples (the least that the
  zero-phase filter of scipy's \<open>decimate\<close> accepts) and raises otherwise. The
  time-frequency transform depends on the position in its input: for the frequency \<open>f\<close>
  the sample \<open>i\<close> becomes its square plus \<open>f * i\<close>.\<close>

definition lib_plain :: extern where
  "lib_plain =
     \<lparr> np_hamming = (\<lambda>M. replicate (nat \<lceil>M\<rceil>) 1),
       np_convolve_same = (\<lambda>x win. Inr x),
       sp_savgol_filter = (\<lambda>data window_length. Inr data),
       sp_decimate = (\<lambda>data dec. case dec of
                         PyInt k \<Rightarrow> if k \<ge> 1 \<and> length data > 27
                                   then Inr (stride (nat k) data) else Inl ShapeError
                       | _ \<Rightarrow> Inl TypeError),
       mne_tfr_array_morlet =
         (\<lambda>data sfreq0 freqs n_cycles.
            Inr (map (\<lambda>f. map (\<lambda>i. data ! i * data ! i + f * of_nat i) [0..<length data]) freqs)) \<rparr>"





section \<open>Verification\<close>

subsection \<open>Masked in-place subtraction\<close>

lemma np_binop_same_length:
  "length xs = length ys \<Longrightarrow> np_binop f xs ys = Inr (map2 f xs ys)"
  by (simp add: np_binop_def)

lemma length_mask_put: "length (mask_put m xs vs) = length xs"
  by (induction m xs vs rule: mask_put.induct) (simp_all split: list.splits)

lemma length_mask_get_map: "length xs = length ts \<Longrightarrow>
  length (mask_get (map P ts) xs) = length (mask_get (map P ts) ts)"
  by (induction xs ts rule: list_induct2) simp_all

lemma mask_put_scalar: "length a = length ts \<Longrightarrow>
  mask_put (map P ts) a (map f (mask_get (map P ts) a)) = map2 (\<lambda>t x. if P t then f x else x) ts a"
proof (induction a ts rule: list_induct2)
  case Nil
  then show ?case by simp
next
  case (Cons x xs y ys)
  then show ?case by (cases "P y") simp_all
qed

lemma mask_put_array: "length a = length ts \<Longrightarrow>
  mask_put (map P ts) a (map2 (-) (mask_get (map P ts) a) (map g (mask_get (map P ts) ts)))
    = map2 (\<lambda>t x. if P t then x - g t else x) ts a"
proof (induction a ts rule: list_induct2)
  case Nil
  then show ?case by simp
next
  case (Cons x xs y ys)
  then show ?case by (cases "P y") simp_all
qed

lemma isub_mask_scalar_eq: "length a = length ts \<Longrightarrow>
  isub_mask_scalar (map P ts) c a = Inr (map2 (\<lambda>t x. if P t then x - c else x) ts a)"
  by (simp add: isub_mask_scalar_def mask_put_scalar)

lemma isub_mask_array_eq:
  assumes "length a = length ts"
  shows "isub_mask_array (map P ts) (map g (mask_get (map P ts) ts)) a
    = Inr (map2 (\<lambda>t x. if P t then x - g t else x) ts a)"
proof -
  have len: "length (mask_get (map P ts) a) = length (map g (mask_get (map P ts) ts))"
    using length_mask_get_map [OF assms, of P] by simp
  have "np_binop (-) (mask_get (map P ts) a) (map g (mask_get (map P ts) ts))
      = Inr (map2 (-) (mask_get (map P ts) a) (map g (mask_get (map P ts) ts)))"
    using len by (rule np_binop_same_length)
  moreover have "length (map2 (-) (mask_get (map P ts) a) (map g (mask_get (map P ts) ts)))
      = length (mask_get (map P ts) a)"
    using len by simp
  ultimately show ?thesis
    using assms by (simp add: isub_mask_array_def mask_put_array)
qed

lemma map2_map2_same: "map2 f ts (map2 g ts a) = map2 (\<lambda>t x. f t (g t x)) ts a"
proof (induction ts arbitrary: a)
  case Nil
  then show ?case by simp
next
  case (Cons t ts)
  then show ?case by (cases a) simp_all
qed

lemma three_passes:
  "map2 (\<lambda>t x. if 750 \<le> t then x - g3 t else x) ts
     (map2 (\<lambda>t x. if 37 < t \<and> t < 750 then x - g2 t else x) ts
        (map2 (\<lambda>t x. if t \<le> 37 then x - c1 else x) ts a))
   = map2 (\<lambda>t v. if t \<le> 37 then v - c1 else if t < 750 then v - g2 t else v - g3 t) (ts :: real list) (a :: real list)"
  (is "?l = ?r")
proof -
  have "(\<lambda>(t::real) x. if 750 \<le> t then (if 37 < t \<and> t < 750 then (if t \<le> 37 then x - c1 else x) - g2 t
                            else (if t \<le> 37 then x - c1 else x)) - g3 t
               else (if 37 < t \<and> t < 750 then (if t \<le> 37 then x - c1 else x) - g2 t
                            else (if t \<le> 37 then x - c1 else x)))
       = (\<lambda>t v. if t \<le> 37 then v - c1 else if t < 750 then v - g2 t else v - g3 t)"
    by (auto simp: fun_eq_iff)
  then show ?thesis
    by (simp only: map2_map2_same)
qed

subsection \<open>baseline\_renormalize in closed form\<close>

lemma baseline_unfold:
  "baseline_renormalize x y d =
     (if units d \<noteq> ''fAm'' then (d, Inr ())
      else baseline_core (of_int (x * y) * 0.0443) (of_int (x * y) * (- 49.0502))
             (\<lambda>t. of_int (x * y) * (0.0034770508 * t + - 51.231085))
             (\<lambda>t. of_int (x * y) * (0.000101 * t + - 48.412078)) d)"
  by (simp only: baseline_renormalize_def baseline_core_def Let_def)

lemma baseline_core_eq:
  assumes "length (L5 d) = length (times_arr d)" "length (L2 d) = length (times_arr d)"
  shows "baseline_core o2 o5 g2 g3 d =
    (d\<lparr>L2 := map (\<lambda>v. v - o2) (L2 d),
       L5 := map2 (\<lambda>t v. if t \<le> 37 then v - o5 else if t < 750 then v - g2 t else v - g3 t)
               (times_arr d) (L5 d),
       agg := map2 (+) (map (\<lambda>v. v - o2) (L2 d))
                (map2 (\<lambda>t v. if t \<le> 37 then v - o5 else if t < 750 then v - g2 t else v - g3 t)
                   (times_arr d) (L5 d))\<rparr>, Inr ())"
  using assms
  by (simp add: baseline_core_def Let_def isub_mask_scalar_eq isub_mask_array_eq
        np_binop_same_length three_passes)

lemma baseline_renormalize_eq:
  assumes "units d = ''fAm''" "length (L5 d) = length (times_arr d)"
    "length (L2 d) = length (times_arr d)"
  shows "baseline_renormalize x y d =
    (d\<lparr>L2 := map (\<lambda>v. v - of_int (x * y) * 0.0443) (L2 d),
       L5 := map2 (\<lambda>t v. if t \<le> 37 then v - of_int (x * y) * (- 49.0502)
                          else if t < 750 then v - of_int (x * y) * (0.0034770508 * t + - 51.231085)
                          else v - of_int (x * y) * (0.000101 * t + - 48.412078))
               (times_arr d) (L5 d),
       agg := map2 (+) (map (\<lambda>v. v - of_int (x * y) * 0.0443) (L2 d))
                (map2 (\<lambda>t v. if t \<le> 37 then v - of_int (x * y) * (- 49.0502)
                          else if t < 750 then v - of_int (x * y) * (0.0034770508 * t + - 51.231085)
                          else v - of_int (x * y) * (0.000101 * t + - 48.412078))
                   (times_arr d) (L5 d))\<rparr>, Inr ())"
  by (simp only: baseline_unfold assms(1) baseline_core_eq [OF assms(2,3)] simp_thms if_False)

lemma dpl_zero2_constructed: "Dipole_init [0, 1] 3 [[0, 0, 0], [0, 0, 0]] 1 = Inr dpl_zero2"
  by (simp add: Dipole_init_def dpl_zero2_def column_def)

subsection \<open>C1: the L5 correction up to 37 ms\<close>

text \<open>
  C1 as stated: for a Dipole in fAm and a sample \<open>i\<close> with \<open>times[i] \<le> 37\<close>,
  \<open>baseline_renormalize\<close> leaves \<open>data['L5'][i]\<close> at the old value minus \<open>N * 49.0502\<close>.
  The source subtracts \<open>dpl_offset['L5'] = N_pyr * -49.0502\<close>, so the value goes up. On the
  two-sample Dipole of zeros with one cell the new value is \<open>49.0502\<close>, not \<open>-49.0502\<close>.
\<close>

theorem baseline_L5_early_as_stated_fails:
  "units dpl_zero2 = ''fAm'' \<and> times_arr dpl_zero2 ! 0 \<le> 37 \<and>
   L5 (fst (baseline_renormalize 1 1 dpl_zero2)) ! 0 \<noteq> L5 dpl_zero2 ! 0 - of_int (1 * 1) * 49.0502"
proof -
  have ok: "units dpl_zero2 = ''fAm''" "length (L5 dpl_zero2) = length (times_arr dpl_zero2)"
    "length (L2 dpl_zero2) = length (times_arr dpl_zero2)"
    by (simp_all add: dpl_zero2_def)
  show ?thesis
    unfolding baseline_renormalize_eq [OF ok]
    by (simp add: dpl_zero2_def)
qed

text \<open>
  C1, amended: for a Dipole in fAm with one L2 and one L5 value for each sample, and a
  sample \<open>i\<close> with \<open>times[i] \<le> 37\<close>, \<open>baseline_renormalize\<close> returns and subtracts
  \<open>N * (-49.0502)\<close> from \<open>data['L5'][i]\<close>: the new value is the old value plus
  \<open>N * 49.0502\<close>, where \<open>N = N_pyr_x * N_pyr_y\<close>.
\<close>

theorem baseline_L5_early:
  assumes "units d = ''fAm''" and "Dipole_ok d"
    and "i < length (times_arr d)" and "times_arr d ! i \<le> 37"
  shows "snd (baseline_renormalize N_pyr_x N_pyr_y d) = Inr () \<and>
         L5 (fst (baseline_renormalize N_pyr_x N_pyr_y d)) ! i
           = L5 d ! i + of_int (N_pyr_x * N_pyr_y) * 49.0502"
proof -
  have len: "length (L5 d) = length (times_arr d)" "length (L2 d) = length (times_arr d)"
    using assms(2) by (simp_all add: Dipole_ok_def)
  show ?thesis
    unfolding baseline_renormalize_eq [OF assms(1) len]
    using assms(3,4) len by simp
qed

text \<open>The amended C1 at the two-sample Dipole of zeros with a grid of 2 by 3 cells.\<close>

theorem baseline_L5_early_witness:
  "units dpl_zero2 = ''fAm'' \<and> Dipole_ok dpl_zero2 \<and> (0::nat) < length (times_arr dpl_zero2) \<and>
   times_arr dpl_zero2 ! 0 \<le> 37 \<and>
   snd (baseline_renormalize 2 3 dpl_zero2) = Inr () \<and>
   L5 (fst (baseline_renormalize 2 3 dpl_zero2)) ! 0 = 294.3012"
proof -
  have h: "units dpl_zero2 = ''fAm''" "Dipole_ok dpl_zero2" "(0::nat) < length (times_arr dpl_zero2)"
    "times_arr dpl_zero2 ! 0 \<le> 37"
    by (simp_all add: dpl_zero2_def Dipole_ok_def)
  from baseline_L5_early [OF h, of 2 3] h show ?thesis
    by (simp add: dpl_zero2_def)
qed

subsection \<open>C2: the aggregate after baseline\_renormalize\<close>

text \<open>
  C2: for a Dipole in fAm (with one value of each layer for each sample),
  \<open>baseline_renormalize\<close> returns, and then \<open>data['agg']\<close> is the elementwise sum of
  \<open>data['L2']\<close> and \<open>data['L5']\<close> as the call leaves them; the three arrays have the length
  of \<open>times\<close>. The equality is between the very values the sum was computed from.
\<close>

theorem agg_is_sum_after_baseline:
  assumes "units d = ''fAm''" and "Dipole_ok d"
  shows "snd (baseline_renormalize N_pyr_x N_pyr_y d) = Inr () \<and>
         agg (fst (baseline_renormalize N_pyr_x N_pyr_y d))
           = map2 (+) (L2 (fst (baseline_renormalize N_pyr_x N_pyr_y d)))
                      (L5 (fst (baseline_renormalize N_pyr_x N_pyr_y d))) \<and>
         length (agg (fst (baseline_renormalize N_pyr_x N_pyr_y d))) = length (times_arr d) \<and>
         length (L2 (fst (baseline_renormalize N_pyr_x N_pyr_y d))) = length (times_arr d) \<and>
         length (L5 (fst (baseline_renormalize N_pyr_x N_pyr_y d))) = length (times_arr d)"
proof -
  have len: "length (L5 d) = length (times_arr d)" "length (L2 d) = length (times_arr d)"
    using assms(2) by (simp_all add: Dipole_ok_def)
  show ?thesis
    unfolding baseline_renormalize_eq [OF assms(1) len]
    using len by simp
qed

text \<open>C2 at the two-sample Dipole of zeros with a grid of 2 by 3 cells.\<close>

theorem agg_is_sum_after_baseline_witness:
  "units dpl_zero2 = ''fAm'' \<and> Dipole_ok dpl_zero2 \<and>
   snd (baseline_renormalize 2 3 dpl_zero2) = Inr () \<and>
   agg (fst (baseline_renormalize 2 3 dpl_zero2)) = [294.0354, 294.0354] \<and>
   L2 (fst (baseline_renormalize 2 3 dpl_zero2)) = [- 0.2658, - 0.2658] \<and>
   L5 (fst (baseline_renormalize 2 3 dpl_zero2)) = [294.3012, 294.3012]"
proof -
  have h: "units dpl_zero2 = ''fAm''" "Dipole_ok dpl_zero2"
    by (simp_all add: dpl_zero2_def Dipole_ok_def)
  have len: "length (L5 dpl_zero2) = length (times_arr dpl_zero2)"
    "length (L2 dpl_zero2) = length (times_arr dpl_zero2)"
    by (simp_all add: dpl_zero2_def)
  have v: "L2 (fst (baseline_renormalize 2 3 dpl_zero2)) = [- 0.2658, - 0.2658]"
    "L5 (fst (baseline_renormalize 2 3 dpl_zero2)) = [294.3012, 294.3012]"
    unfolding baseline_renormalize_eq [OF h(1) len] by (simp_all add: dpl_zero2_def)
  from agg_is_sum_after_baseline [OF h, of 2 3] h v show ?thesis
    by simp
qed

subsection \<open>average\_dipoles in closed form\<close>

lemma foldl_map2_add:
  "length acc = n \<Longrightarrow> list_all (\<lambda>q. length q = n) rows \<Longrightarrow>
   foldl (map2 (+)) acc rows = map (\<lambda>j. acc ! j + sum_list (map (\<lambda>q. q ! j) rows)) [0..<n]"
proof (induction rows arbitrary: acc)
  case Nil
  then show ?case using map_nth [of acc] by simp
next
  case (Cons r rows)
  have "length (map2 (+) acc r) = n" using Cons.prems by simp
  moreover have "list_all (\<lambda>q. length q = n) rows" using Cons.prems by simp
  ultimately have "foldl (map2 (+)) (map2 (+) acc r) rows
      = map (\<lambda>j. map2 (+) acc r ! j + sum_list (map (\<lambda>q. q ! j) rows)) [0..<n]"
    by (rule Cons.IH)
  also have "\<dots> = map (\<lambda>j. acc ! j + sum_list (map (\<lambda>q. q ! j) (r # rows))) [0..<n]"
    using Cons.prems by (simp add: add.assoc)
  finally show ?case by simp
qed

lemma np_mean_axis0_eq:
  assumes "rows \<noteq> []" and "list_all (\<lambda>q. length q = n) rows"
  shows "np_mean_axis0 rows
    = Inr (map (\<lambda>j. sum_list (map (\<lambda>q. q ! j) rows) / of_nat (length rows)) [0..<n])"
proof -
  obtain r rs where rows: "rows = r # rs" using assms(1) by (cases rows) auto
  have lr: "length r = n" and lrs: "list_all (\<lambda>q. length q = n) rs"
    using assms(2) rows by simp_all
  have "foldl (map2 (+)) (replicate n 0) rows
      = map (\<lambda>j. replicate n 0 ! j + sum_list (map (\<lambda>q. q ! j) rows)) [0..<n]"
    using assms(2) by (intro foldl_map2_add) simp_all
  also have "\<dots> = map (\<lambda>j. sum_list (map (\<lambda>q. q ! j) rows)) [0..<n]"
    by simp
  finally have f: "foldl (map2 (+)) (replicate n 0) rows
      = map (\<lambda>j. sum_list (map (\<lambda>q. q ! j) rows)) [0..<n]" .
  show ?thesis
    unfolding np_mean_axis0_def rows list.case
    using lr lrs f [unfolded rows] by (simp add: o_def)
qed

lemma takeWhile_shorter:
  "\<not> list_all P xs \<Longrightarrow> length (takeWhile P xs) < length xs"
  by (induction xs) auto

lemma check_nave_none:
  "list_all (\<lambda>d. \<not> nave d > 1) dpls \<Longrightarrow> check_nave k dpls = None"
  by (induction dpls arbitrary: k) simp_all

lemma check_nave_first:
  "\<not> list_all (\<lambda>d. \<not> nave d > 1) dpls \<Longrightarrow>
   check_nave k dpls
     = Some (AlreadyAverage (k + length (takeWhile (\<lambda>d. \<not> nave d > 1) dpls))
               (nave (dpls ! length (takeWhile (\<lambda>d. \<not> nave d > 1) dpls))))"
  by (induction dpls arbitrary: k) auto

lemma column_np_c3:
  assumes "length a = length b" "length b = length c"
  shows "column 0 (map (\<lambda>(x, y, z). [x, y, z]) (zip a (zip b c))) = a"
    and "column (Suc 0) (map (\<lambda>(x, y, z). [x, y, z]) (zip a (zip b c))) = b"
    and "column 2 (map (\<lambda>(x, y, z). [x, y, z]) (zip a (zip b c))) = c"
    and "list_all (\<lambda>r. length r = 3) (map (\<lambda>(x, y, z). [x, y, z]) (zip a (zip b c)))"
    and "length (map (\<lambda>(x, y, z). [x, y, z]) (zip a (zip b c))) = length a"
  using assms
  by (induction a b c rule: list_induct3) (simp_all add: column_def)

lemma average_dipoles_value:
  assumes n2: "2 \<le> length dpls"
    and each: "list_all (\<lambda>d. nave d = 1 \<and> Dipole_ok d \<and> times_arr d = ts) dpls"
    and step: "ts ! 1 \<noteq> ts ! 0"
  shows "average_dipoles dpls =
    Inr \<lparr> units = ''fAm'', N = length ts, times_arr = ts,
          agg = map (\<lambda>j. (\<Sum>d\<leftarrow>dpls. agg d ! j) / of_nat (length dpls)) [0..<length ts],
          L2 = map (\<lambda>j. (\<Sum>d\<leftarrow>dpls. L2 d ! j) / of_nat (length dpls)) [0..<length ts],
          L5 = map (\<lambda>j. (\<Sum>d\<leftarrow>dpls. L5 d ! j) / of_nat (length dpls)) [0..<length ts],
          nave = int (length dpls), sfreq = 1000 / (ts ! 1 - ts ! 0) \<rparr>"
proof -
  have ne: "dpls \<noteq> []" using n2 by auto
  have all: "\<And>d. d \<in> set dpls \<Longrightarrow> nave d = 1 \<and> Dipole_ok d \<and> times_arr d = ts"
    using each by (simp add: list_all_iff)
  have first: "dpls ! 0 \<in> set dpls" using ne by simp
  have t0: "times_arr (dpls ! 0) = ts" and len_ts: "2 \<le> length ts"
    using all [OF first] by (auto simp: Dipole_ok_def)
  have chk: "check_nave 0 dpls = None"
    by (rule check_nave_none) (use all in \<open>simp add: list_all_iff\<close>)
  have rows: "list_all (\<lambda>q. length q = length ts) (map agg dpls)"
    "list_all (\<lambda>q. length q = length ts) (map L2 dpls)"
    "list_all (\<lambda>q. length q = length ts) (map L5 dpls)"
    using all by (auto simp: list_all_iff Dipole_ok_def)
  have m: "np_mean_axis0 (map agg dpls)
      = Inr (map (\<lambda>j. (\<Sum>d\<leftarrow>dpls. agg d ! j) / of_nat (length dpls)) [0..<length ts])"
    "np_mean_axis0 (map L2 dpls)
      = Inr (map (\<lambda>j. (\<Sum>d\<leftarrow>dpls. L2 d ! j) / of_nat (length dpls)) [0..<length ts])"
    "np_mean_axis0 (map L5 dpls)
      = Inr (map (\<lambda>j. (\<Sum>d\<leftarrow>dpls. L5 d ! j) / of_nat (length dpls)) [0..<length ts])"
    using np_mean_axis0_eq [OF _ rows(1)] np_mean_axis0_eq [OF _ rows(2)]
      np_mean_axis0_eq [OF _ rows(3)] ne
    by (simp_all add: o_def)
  show ?thesis
    using n2 step len_ts
    by (simp add: average_dipoles_def chk m np_c3_def Dipole_init_def t0 column_np_c3)
qed

subsection \<open>C3: average\_dipoles\<close>

text \<open>
  C3: on at least two Dipoles, each with \<open>nave = 1\<close>, with one value of each layer for each
  sample and with the same time grid \<open>ts\<close> (whose first two samples differ, so that the
  constructor can compute the sample rate), \<open>average_dipoles\<close> returns a new Dipole whose
  \<open>nave\<close> is the number of inputs, whose times are \<open>ts\<close> and whose layers are, sample by
  sample, the sum over the inputs divided by their number. On one Dipole it raises the
  ValueError of line 151. On at least two Dipoles of which one has \<open>nave > 1\<close> it raises the
  ValueError of line 156 with the index of the first such Dipole and its \<open>nave\<close>. (The check
  of the number of inputs comes first in the source, so a single averaged Dipole raises the
  error of line 151.)
\<close>

theorem average_dipoles_correct:
  "(2 \<le> length dpls \<and>
    list_all (\<lambda>d. nave d = 1 \<and> Dipole_ok d \<and> times_arr d = ts) dpls \<and> ts ! 1 \<noteq> ts ! 0
      \<longrightarrow> (\<exists>avg. average_dipoles dpls = Inr avg \<and>
             nave avg = int (length dpls) \<and> times_arr avg = ts \<and>
             agg avg = map (\<lambda>j. (\<Sum>d\<leftarrow>dpls. agg d ! j) / of_nat (length dpls)) [0..<length ts] \<and>
             L2 avg = map (\<lambda>j. (\<Sum>d\<leftarrow>dpls. L2 d ! j) / of_nat (length dpls)) [0..<length ts] \<and>
             L5 avg = map (\<lambda>j. (\<Sum>d\<leftarrow>dpls. L5 d ! j) / of_nat (length dpls)) [0..<length ts])) \<and>
   (length dpls = 1 \<longrightarrow> average_dipoles dpls = Inl NeedTwoDipoles) \<and>
   (2 \<le> length dpls \<and> (\<exists>d \<in> set dpls. nave d > 1)
      \<longrightarrow> (let i = length (takeWhile (\<lambda>d. \<not> nave d > 1) dpls)
           in i < length dpls \<and> nave (dpls ! i) > 1 \<and>
              average_dipoles dpls = Inl (AlreadyAverage i (nave (dpls ! i)))))"
proof (intro conjI impI)
  assume "2 \<le> length dpls \<and>
    list_all (\<lambda>d. nave d = 1 \<and> Dipole_ok d \<and> times_arr d = ts) dpls \<and> ts ! 1 \<noteq> ts ! 0"
  then have a: "2 \<le> length dpls"
    and b: "list_all (\<lambda>d. nave d = 1 \<and> Dipole_ok d \<and> times_arr d = ts) dpls"
    and c: "ts ! 1 \<noteq> ts ! 0"
    by simp_all
  show "\<exists>avg. average_dipoles dpls = Inr avg \<and>
             nave avg = int (length dpls) \<and> times_arr avg = ts \<and>
             agg avg = map (\<lambda>j. (\<Sum>d\<leftarrow>dpls. agg d ! j) / of_nat (length dpls)) [0..<length ts] \<and>
             L2 avg = map (\<lambda>j. (\<Sum>d\<leftarrow>dpls. L2 d ! j) / of_nat (length dpls)) [0..<length ts] \<and>
             L5 avg = map (\<lambda>j. (\<Sum>d\<leftarrow>dpls. L5 d ! j) / of_nat (length dpls)) [0..<length ts]"
    unfolding average_dipoles_value [OF a b c] by simp
next
  assume "length dpls = 1"
  then show "average_dipoles dpls = Inl NeedTwoDipoles"
    by (simp add: average_dipoles_def)
next
  assume a: "2 \<le> length dpls \<and> (\<exists>d \<in> set dpls. nave d > 1)"
  let ?i = "length (takeWhile (\<lambda>d. \<not> nave d > 1) dpls)"
  have notall: "\<not> list_all (\<lambda>d. \<not> nave d > 1) dpls"
    using a by (auto simp: list_all_iff)
  then have lt: "?i < length dpls"
    by (rule takeWhile_shorter)
  have off: "nave (dpls ! ?i) > 1"
    using nth_length_takeWhile [OF lt] by simp
  have "average_dipoles dpls = Inl (AlreadyAverage ?i (nave (dpls ! ?i)))"
    using a check_nave_first [OF notall, of 0] by (simp add: average_dipoles_def)
  with lt off show "let i = ?i in i < length dpls \<and> nave (dpls ! i) > 1 \<and>
              average_dipoles dpls = Inl (AlreadyAverage i (nave (dpls ! i)))"
    by (simp add: Let_def)
qed

text \<open>C3 on two trials, on one trial, and on three Dipoles of which the second and the third
  are averages.\<close>

theorem average_dipoles_correct_witness:
  "average_dipoles [dpl_trial_a, dpl_trial_b]
     = Inr \<lparr> units = ''fAm'', N = 2, times_arr = [0, 0.5],
             agg = [4, 7], L2 = [2, 3], L5 = [2, 4], nave = 2, sfreq = 2000 \<rparr> \<and>
   average_dipoles [dpl_trial_a] = Inl NeedTwoDipoles \<and>
   average_dipoles [dpl_trial_a, dpl_trial_b\<lparr>nave := 2\<rparr>, dpl_trial_b\<lparr>nave := 3\<rparr>]
     = Inl (AlreadyAverage 1 2)"
proof -
  have h: "2 \<le> length [dpl_trial_a, dpl_trial_b] \<and>
      list_all (\<lambda>d. nave d = 1 \<and> Dipole_ok d \<and> times_arr d = [0, 0.5]) [dpl_trial_a, dpl_trial_b] \<and>
      [0, 0.5 :: real] ! 1 \<noteq> [0, 0.5] ! 0"
    by (simp add: dpl_trial_a_def dpl_trial_b_def Dipole_ok_def)
  have units_sfreq: "\<And>avg. average_dipoles [dpl_trial_a, dpl_trial_b] = Inr avg \<Longrightarrow>
      units avg = ''fAm'' \<and> N avg = 2 \<and> sfreq avg = 2000"
    by (auto simp: average_dipoles_def dpl_trial_a_def dpl_trial_b_def np_mean_axis0_def
          np_c3_def Dipole_init_def column_def)
  have 1: "average_dipoles [dpl_trial_a, dpl_trial_b]
     = Inr \<lparr> units = ''fAm'', N = 2, times_arr = [0, 0.5],
             agg = [4, 7], L2 = [2, 3], L5 = [2, 4], nave = 2, sfreq = 2000 \<rparr>"
    using average_dipoles_correct [of "[dpl_trial_a, dpl_trial_b]" "[0, 0.5]"] h units_sfreq
    by (auto simp: dpl_trial_a_def dpl_trial_b_def upt_rec)
  have 2: "average_dipoles [dpl_trial_a] = Inl NeedTwoDipoles"
    using average_dipoles_correct [of "[dpl_trial_a]"] by simp
  have 3: "average_dipoles [dpl_trial_a, dpl_trial_b\<lparr>nave := 2\<rparr>, dpl_trial_b\<lparr>nave := 3\<rparr>]
     = Inl (AlreadyAverage 1 2)"
    using average_dipoles_correct [of "[dpl_trial_a, dpl_trial_b\<lparr>nave := 2\<rparr>, dpl_trial_b\<lparr>nave := 3\<rparr>]"]
    by (simp add: dpl_trial_a_def dpl_trial_b_def Let_def)
  from 1 2 3 show ?thesis by simp
qed

subsection \<open>C9: the units of an average\<close>

text \<open>
  C9: whenever \<open>average_dipoles\<close> returns a Dipole, its units are \<open>'fAm'\<close>, whatever the units
  of the inputs: the constructor sets \<open>'fAm'\<close> and \<open>average_dipoles\<close> sets only \<open>nave\<close>
  afterwards.
\<close>

theorem average_dipoles_units:
  assumes "average_dipoles dpls = Inr avg"
  shows "units avg = ''fAm''"
proof -
  from assms obtain avg_dpl_data avg_dpl where
    built: "Dipole_init (times_arr (dpls ! 0)) 3 avg_dpl_data 1 = Inr avg_dpl" and
    counted: "avg = avg_dpl\<lparr>nave := int (length dpls)\<rparr>"
    by (auto simp: average_dipoles_def split: if_splits option.splits sum.splits)
  from built have "units avg_dpl = ''fAm''"
    by (auto simp: Dipole_init_def split: if_splits)
  with counted show ?thesis by simp
qed

text \<open>C9 on two trials in nAm: the average is returned and is tagged fAm.\<close>

theorem average_dipoles_units_witness:
  "units dpl_trial_a = ''nAm'' \<and> units dpl_trial_b = ''nAm'' \<and>
   (\<exists>avg. average_dipoles [dpl_trial_a, dpl_trial_b] = Inr avg \<and> units avg = ''fAm'')"
proof -
  have "average_dipoles [dpl_trial_a, dpl_trial_b]
     = Inr \<lparr> units = ''fAm'', N = 2, times_arr = [0, 0.5],
             agg = [4, 7], L2 = [2, 3], L5 = [2, 4], nave = 2, sfreq = 2000 \<rparr>"
    by (simp add: average_dipoles_def dpl_trial_a_def dpl_trial_b_def np_mean_axis0_def
          np_c3_def Dipole_init_def column_def)
  then obtain avg where r: "average_dipoles [dpl_trial_a, dpl_trial_b] = Inr avg" by blast
  from average_dipoles_units [OF r] r show ?thesis
    by (simp add: dpl_trial_a_def dpl_trial_b_def)
qed

subsection \<open>C6: smoothing with a window, the two edges\<close>

text \<open>
  C6: for a Dipole with at least one sample and \<open>winsz = 1e-3 * window_len * sfreq\<close>:
  if \<open>winsz \<le> 1\<close>, \<open>smooth(window_len=...)\<close> returns (with \<open>None\<close>) and leaves the Dipole as
  it was; if \<open>winsz > len(times)\<close> it raises the ValueError of line 292 and leaves the
  Dipole as it was. No library routine is reached in either case.
\<close>

theorem smooth_window_edges:
  "(times_arr d \<noteq> [] \<and> 0.001 * wl * sfreq d \<le> 1
      \<longrightarrow> smooth lib (Some wl) None d = (d, Inr RetNone)) \<and>
   (0.001 * wl * sfreq d > of_nat (length (times_arr d))
      \<longrightarrow> smooth lib (Some wl) None d
            = (d, Inl (WindowTooLong (0.001 * wl * sfreq d) (length (times_arr d)))))"
proof (intro conjI impI)
  assume a: "times_arr d \<noteq> [] \<and> 0.001 * wl * sfreq d \<le> 1"
  then have "1 \<le> length (times_arr d)" by (cases "times_arr d") simp_all
  then have "(1::real) \<le> of_nat (length (times_arr d))" by simp
  with a have "\<not> 0.001 * wl * sfreq d > of_nat (length (times_arr d))" by linarith
  with a show "smooth lib (Some wl) None d = (d, Inr RetNone)"
    by (simp add: smooth_def Let_def)
next
  assume "0.001 * wl * sfreq d > of_nat (length (times_arr d))"
  then show "smooth lib (Some wl) None d
      = (d, Inl (WindowTooLong (0.001 * wl * sfreq d) (length (times_arr d))))"
    by (simp add: smooth_def Let_def)
qed

text \<open>C6 on the two-sample Dipole at 1000 Hz: a window of 1 ms is one sample, a window of
  5 ms is five.\<close>

theorem smooth_window_edges_witness:
  "smooth lib_plain (Some 1) None dpl_zero2 = (dpl_zero2, Inr RetNone) \<and>
   smooth lib_plain (Some 5) None dpl_zero2 = (dpl_zero2, Inl (WindowTooLong 5 2))"
proof -
  have a: "times_arr dpl_zero2 \<noteq> [] \<and> 0.001 * 1 * sfreq dpl_zero2 \<le> 1"
    by (simp add: dpl_zero2_def)
  have b: "0.001 * 5 * sfreq dpl_zero2 > of_nat (length (times_arr dpl_zero2))"
    by (simp add: dpl_zero2_def)
  from smooth_window_edges [of dpl_zero2 1 lib_plain] a
  have 1: "smooth lib_plain (Some 1) None dpl_zero2 = (dpl_zero2, Inr RetNone)" by blast
  from smooth_window_edges [of dpl_zero2 5 lib_plain] b
  have "smooth lib_plain (Some 5) None dpl_zero2
      = (dpl_zero2, Inl (WindowTooLong (0.001 * 5 * sfreq dpl_zero2) (length (times_arr dpl_zero2))))"
    by blast
  then have 2: "smooth lib_plain (Some 5) None dpl_zero2 = (dpl_zero2, Inl (WindowTooLong 5 2))"
    by (simp add: dpl_zero2_def)
  from 1 2 show ?thesis by simp
qed

subsection \<open>C7: smoothing with a cutoff frequency, the rejected frequencies\<close>

text \<open>
  C7: \<open>smooth(h_freq=h)\<close> raises the ValueError of line 304 for \<open>h < 0\<close>, and the ValueError
  "h\_freq must be less than half the sample rate" for every \<open>h \<ge> 0\<close> with
  \<open>h \<ge> sfreq / 2\<close>; the Dipole is as it was in both cases. For \<open>h > sfreq / 2\<close> the error
  comes from line 306 of \<open>smooth\<close>; for \<open>h = sfreq / 2\<close> it comes from line 48 of
  \<open>_savgol_filter\<close>, called for the first layer before anything is assigned.
\<close>

theorem smooth_h_freq_rejected:
  "(h < 0 \<longrightarrow> smooth lib None (Some h) d = (d, Inl NegativeFreq)) \<and>
   (0 \<le> h \<and> sfreq d / 2 \<le> h \<longrightarrow> smooth lib None (Some h) d = (d, Inl NotBelowNyquist))"
proof (intro conjI impI)
  assume "h < 0"
  then show "smooth lib None (Some h) d = (d, Inl NegativeFreq)"
    by (simp add: smooth_def)
next
  assume a: "0 \<le> h \<and> sfreq d / 2 \<le> h"
  show "smooth lib None (Some h) d = (d, Inl NotBelowNyquist)"
  proof (cases "h > 0.5 * sfreq d")
    case True
    with a show ?thesis by (simp add: smooth_def)
  next
    case False
    have first_layer: "savgol_filter lib (agg d) h (sfreq d) = Inl NotBelowNyquist"
      using a by (simp add: savgol_filter_def)
    have "smooth lib None (Some h) d = filter_layers (\<lambda>x. savgol_filter lib x h (sfreq d)) d"
      using a False by (simp add: smooth_def)
    also have "\<dots> = (d, Inl NotBelowNyquist)"
      by (simp add: filter_layers_def first_layer)
    finally show ?thesis .
  qed
qed

text \<open>C7 on the two-sample Dipole at 1000 Hz, below zero, at half the sample rate and
  above it.\<close>

theorem smooth_h_freq_rejected_witness:
  "smooth lib_plain None (Some (- 1)) dpl_zero2 = (dpl_zero2, Inl NegativeFreq) \<and>
   sfreq dpl_zero2 / 2 = 500 \<and>
   smooth lib_plain None (Some 500) dpl_zero2 = (dpl_zero2, Inl NotBelowNyquist) \<and>
   smooth lib_plain None (Some 600) dpl_zero2 = (dpl_zero2, Inl NotBelowNyquist)"
proof -
  have s: "sfreq dpl_zero2 / 2 = 500" by (simp add: dpl_zero2_def)
  from smooth_h_freq_rejected [of "- 1" lib_plain dpl_zero2]
  have 1: "smooth lib_plain None (Some (- 1)) dpl_zero2 = (dpl_zero2, Inl NegativeFreq)" by simp
  from smooth_h_freq_rejected [of 500 lib_plain dpl_zero2] s
  have 2: "smooth lib_plain None (Some 500) dpl_zero2 = (dpl_zero2, Inl NotBelowNyquist)" by simp
  from smooth_h_freq_rejected [of 600 lib_plain dpl_zero2] s
  have 3: "smooth lib_plain None (Some 600) dpl_zero2 = (dpl_zero2, Inl NotBelowNyquist)" by simp
  from 1 2 3 s show ?thesis by simp
qed

subsection \<open>Masks that select an interval of the times\<close>

lemma mask_get_self: "mask_get (map P ts) ts = filter P ts"
  by (induction ts) simp_all

lemma length_mask_get_same:
  "length x = length ts \<Longrightarrow> length (mask_get (map P ts) x) = length (filter P ts)"
  by (induction x ts rule: list_induct2) simp_all

lemma mask_get_butlast:
  assumes "length x = length ts" "ts \<noteq> []" "\<forall>t \<in> set (butlast ts). P t" "\<not> P (last ts)"
  shows "mask_get (map P ts) x = butlast x"
  using assms
proof (induction x ts rule: list_induct2)
  case Nil
  then show ?case by simp
next
  case (Cons a x t ts)
  show ?case
  proof (cases "ts = []")
    case True
    with Cons show ?thesis by simp
  next
    case False
    with Cons have "x \<noteq> []" by auto
    with False Cons show ?thesis by simp
  qed
qed

lemma strictly_increasing_bounds:
  assumes "sorted_wrt (<) (ts :: real list)" "ts \<noteq> []"
  shows "\<forall>t \<in> set (butlast ts). hd ts \<le> t \<and> t < last ts"
  using assms
proof (induction ts)
  case Nil
  then show ?case by simp
next
  case (Cons a ts)
  show ?case
  proof (cases "ts = []")
    case True
    then show ?thesis by simp
  next
    case False
    have lt: "a < last ts" using Cons.prems False by (simp add: last_in_set)
    have ih: "\<forall>t \<in> set (butlast ts). hd ts \<le> t \<and> t < last ts"
      using Cons False by simp
    have "a < hd ts" using Cons.prems False by (cases ts) simp_all
    with ih lt False show ?thesis by auto
  qed
qed

subsection \<open>C10: \_get\_plot\_data leaves the last sample out\<close>

text \<open>
  C10: for a Dipole with strictly increasing, non-empty times and a layer with one value
  for each sample: without a time window \<open>_get_plot_data\<close> returns the layer (scaled) and
  the times without their last sample, so both have length \<open>len(times) - 1\<close>; and with any
  \<open>tmin\<close> and \<open>tmax\<close> it returns values and times of equal length, fewer than \<open>len(times)\<close>,
  and the last time is not among the returned times.
\<close>

theorem get_plot_data_excludes_last:
  assumes "sorted_wrt (<) (times_arr d)" and "times_arr d \<noteq> []"
    and "data_get d layer = Inr x" and "length x = length (times_arr d)"
  shows "get_plot_data d layer None None scaling
           = Inr (map (\<lambda>v. scaling * v) (butlast x), butlast (times_arr d)) \<and>
         length (butlast x) = length (times_arr d) - 1 \<and>
         length (butlast (times_arr d)) = length (times_arr d) - 1 \<and>
         (\<exists>vals ts1. get_plot_data d layer tmin tmax scaling = Inr (vals, ts1) \<and>
            last (times_arr d) \<notin> set ts1 \<and> length vals = length ts1 \<and>
            length ts1 < length (times_arr d))"
proof -
  let ?ts = "times_arr d"
  let ?P0 = "\<lambda>t. hd ?ts \<le> t \<and> t < last ?ts"
  have b: "\<forall>t \<in> set (butlast ?ts). ?P0 t"
    by (rule strictly_increasing_bounds [OF assms(1,2)])
  have nl: "\<not> ?P0 (last ?ts)" by simp
  have 1: "mask_get (map ?P0 ?ts) x = butlast x"
    by (rule mask_get_butlast [OF assms(4,2) b nl])
  have 2: "mask_get (map ?P0 ?ts) ?ts = butlast ?ts"
    by (rule mask_get_butlast [OF refl assms(2) b nl])
  have first: "get_plot_data d layer None None scaling
           = Inr (map (\<lambda>v. scaling * v) (butlast x), butlast ?ts)"
    using assms(2,3,4) by (simp add: get_plot_data_def Let_def 1 2)
  define lo where "lo = (case tmin of None \<Rightarrow> hd ?ts | Some t \<Rightarrow> max t (hd ?ts))"
  define hi where "hi = (case tmax of None \<Rightarrow> last ?ts | Some t \<Rightarrow> min t (last ?ts))"
  let ?P = "\<lambda>t. lo \<le> t \<and> t < hi"
  have hi_le: "hi \<le> last ?ts" by (simp add: hi_def split: option.splits)
  have g: "get_plot_data d layer tmin tmax scaling
      = Inr (map (\<lambda>v. scaling * v) (mask_get (map ?P ?ts) x), mask_get (map ?P ?ts) ?ts)"
    using assms(2,3,4) by (simp add: get_plot_data_def Let_def lo_def hi_def)
  have notin: "last ?ts \<notin> set (mask_get (map ?P ?ts) ?ts)"
    using hi_le by (auto simp: mask_get_self)
  have "length (filter ?P ?ts) < length ?ts"
  proof -
    have "last ?ts \<in> set ?ts" using assms(2) by simp
    moreover have "\<not> ?P (last ?ts)" using hi_le by simp
    ultimately show ?thesis by (metis length_filter_less)
  qed
  then have short: "length (mask_get (map ?P ?ts) ?ts) < length ?ts"
    by (simp add: mask_get_self)
  have same: "length (mask_get (map ?P ?ts) x) = length (mask_get (map ?P ?ts) ?ts)"
    using assms(4) by (simp add: length_mask_get_same mask_get_self)
  from first g notin short same assms(4) show ?thesis by simp
qed

text \<open>C10 on the four-sample Dipole.\<close>

theorem get_plot_data_excludes_last_witness:
  "sorted_wrt (<) (times_arr dpl_ramp4) \<and> times_arr dpl_ramp4 \<noteq> [] \<and>
   data_get dpl_ramp4 ''agg'' = Inr [5, 7, 9, 11] \<and>
   get_plot_data dpl_ramp4 ''agg'' None None 1 = Inr ([5, 7, 9], [0, 1, 2])"
proof -
  have h: "sorted_wrt (<) (times_arr dpl_ramp4)" "times_arr dpl_ramp4 \<noteq> []"
    "data_get dpl_ramp4 ''agg'' = Inr [5, 7, 9, 11]"
    "length [5, 7, 9, 11 :: real] = length (times_arr dpl_ramp4)"
    by (simp_all add: dpl_ramp4_def data_get_def)
  from get_plot_data_excludes_last [OF h, of 1] h show ?thesis
    by (simp add: dpl_ramp4_def)
qed

subsection \<open>The extracted arrays and \_check\_nfft\<close>

lemma get_plot_data_lengths:
  "get_plot_data d layer tmin tmax scaling = Inr (vals, ts1) \<Longrightarrow> length vals = length ts1"
  by (auto simp: get_plot_data_def Let_def length_mask_get_same mask_get_self
      split: if_splits sum.splits)

lemma check_nfft_clipped:
  "n < p \<Longrightarrow>
   check_nfft n n_fft (Some p) n_overlap
     = (if n_overlap \<ge> min n n_fft then Inl (OverlapTooLarge n_overlap (min n n_fft))
        else Inr (n_fft, min n n_fft, n_overlap))"
  by (auto simp: check_nfft_def Let_def)

subsection \<open>C4: the segment length of the Welch estimate\<close>

text \<open>
  C4 as stated: when \<open>n_per_seg\<close> exceeds the number \<open>n\<close> of samples, the segment length
  becomes \<open>n\<close>, and the call raises exactly when \<open>n_overlap\<close> is at least that length.
  Line 526 of the source first lowers \<open>n_per_seg\<close> to \<open>n_fft\<close>, so with \<open>n_fft < n\<close> the
  segment length is \<open>n_fft\<close>: with 1000 samples, \<open>n_fft = 512\<close> and the default
  \<open>n_per_seg = 4096\<close> the segments have 512 samples, and an overlap of 600, which is less
  than 1000, raises. The same on the four-sample Dipole, of which three samples are
  extracted, with \<open>n_fft = 2\<close> and \<open>n_per_seg = 8\<close>.
\<close>

theorem welch_segment_clip_as_stated_fails:
  "(4096::int) > 1000 \<and> (600::int) < 1000 \<and>
   check_nfft 1000 512 (Some 4096) 0 = Inr (512, 512, 0) \<and>
   check_nfft 1000 512 (Some 4096) 600 = Inl (OverlapTooLarge 600 512) \<and>
   get_plot_data dpl_ramp4 ''agg'' None None 1 = Inr ([5, 7, 9], [0, 1, 2]) \<and>
   plot_psd_welch dpl_ramp4 2 0 (Some 8) None None ''agg'' = Inr ([5, 7, 9], 2, 2, 0) \<and>
   plot_psd_welch dpl_ramp4 2 2 (Some 8) None None ''agg'' = Inl (OverlapTooLarge 2 2)"
  by (simp add: check_nfft_def plot_psd_welch_def get_plot_data_def dpl_ramp4_def data_get_def)

text \<open>
  C4, amended: for a Welch request whose \<open>n_per_seg\<close> exceeds the number \<open>n\<close> of extracted
  samples, the segment length is the smaller of \<open>n\<close> and \<open>n_fft\<close> (so it is \<open>n\<close> whenever
  \<open>n_fft \<ge> n\<close>); no error is raised when \<open>n_overlap\<close> is strictly less than that length,
  and the ValueError of line 529 is raised otherwise.
\<close>

theorem welch_segment_clip:
  assumes "get_plot_data dpl layer tmin tmax 1 = Inr (data, ts)"
    and "int (length ts) < p"
  shows "plot_psd_welch dpl n_fft n_overlap (Some p) tmin tmax layer
     = (if n_overlap \<ge> min (int (length ts)) n_fft
        then Inl (OverlapTooLarge n_overlap (min (int (length ts)) n_fft))
        else Inr (data, n_fft, min (int (length ts)) n_fft, n_overlap))"
  using assms by (simp add: plot_psd_welch_def check_nfft_clipped)

text \<open>The amended C4 on the four-sample Dipole (three extracted samples) with the default
  lengths, with an overlap of three, and with \<open>n_fft = 2\<close>.\<close>

theorem welch_segment_clip_witness:
  "get_plot_data dpl_ramp4 ''agg'' None None 1 = Inr ([5, 7, 9], [0, 1, 2]) \<and>
   plot_psd_welch dpl_ramp4 16384 0 (Some 4096) None None ''agg'' = Inr ([5, 7, 9], 16384, 3, 0) \<and>
   plot_psd_welch dpl_ramp4 16384 3 (Some 4096) None None ''agg'' = Inl (OverlapTooLarge 3 3) \<and>
   plot_psd_welch dpl_ramp4 2 0 (Some 4096) None None ''agg'' = Inr ([5, 7, 9], 2, 2, 0)"
proof -
  have g: "get_plot_data dpl_ramp4 ''agg'' None None 1 = Inr ([5, 7, 9], [0, 1, 2])"
    by (simp add: get_plot_data_def dpl_ramp4_def data_get_def)
  have l: "int (length [0, 1, 2 :: real]) < 4096" by simp
  from welch_segment_clip [OF g l, of 16384 0] welch_segment_clip [OF g l, of 16384 3]
    welch_segment_clip [OF g l, of 2 0] g
  show ?thesis by simp
qed

subsection \<open>Slices of the padded signal\<close>

lemma py_slice_take_drop:
  assumes "1 \<le> L"
  shows "py_slice (int L - 1) (2 * int L - 1) row = take L (drop (L - 1) row)"
proof -
  have neg: "\<not> int L - 1 < 0" "\<not> 2 * int L - 1 < 0" using assms by linarith+
  have eq: "py_slice (int L - 1) (2 * int L - 1) row
      = take (nat (min (2 * int L - 1) (int (length row)) - min (int L - 1) (int (length row))))
          (drop (nat (min (int L - 1) (int (length row)))) row)"
    unfolding py_slice_def Let_def by (simp only: neg if_False)
  show ?thesis
  proof (cases "2 * L - 1 \<le> length row")
    case True
    then have "min (2 * int L - 1) (int (length row)) = 2 * int L - 1"
      "min (int L - 1) (int (length row)) = int L - 1"
      using assms by linarith+
    then show ?thesis unfolding eq using assms by (simp add: nat_diff_distrib)
  next
    case False
    note short = this
    show ?thesis
    proof (cases "L - 1 \<le> length row")
      case True
      then have m: "min (2 * int L - 1) (int (length row)) = int (length row)"
        "min (int L - 1) (int (length row)) = int L - 1"
        using assms short by linarith+
      have "length (drop (L - 1) row) \<le> L" using short by simp
      moreover have "nat (int (length row) - (int L - 1)) = length (drop (L - 1) row)"
        using True assms by simp
      moreover have "nat (int L - 1) = L - 1" using assms by simp
      ultimately show ?thesis unfolding eq m by simp
    next
      case False
      then have m: "min (2 * int L - 1) (int (length row)) = int (length row)"
        "min (int L - 1) (int (length row)) = int (length row)"
        using assms by linarith+
      show ?thesis unfolding eq m using False by simp
    qed
  qed
qed

lemma tfr_pad_shape:
  assumes "padding = PyStr ''zeros'' \<or> padding = PyStr ''mirror''" "data \<noteq> []"
  shows "tfr_pad padding data
     = Inr ((if padding = PyStr ''zeros'' then replicate (length data - 1) 0 else rev (tl data))
            @ data @
            (if padding = PyStr ''zeros'' then replicate (length data - 1) 0 else rev (butlast data)))"
  using assms by (auto simp: tfr_pad_def)

lemma plot_tfr_morlet_stages:
  assumes g: "get_plot_data dpl layer tmin tmax 1 = Inr (data0, times0)"
    and dec: "decim = PyNone \<and> data = data0 \<and> ts = times0 \<and> r = sfreq dpl \<or>
              decim \<noteq> PyNone \<and>
              decimate_plot_data lib decim data0 times0 (Some (sfreq dpl)) = Inr (data, ts, Some r)"
  shows "plot_tfr_morlet lib dpl freqs n_cycles tmin tmax layer decim padding =
     (case tfr_pad padding data of
        Inl e \<Rightarrow> Inl e
      | Inr data2 \<Rightarrow>
        (case mne_tfr_array_morlet lib data2 r freqs n_cycles of
           Inl e \<Rightarrow> Inl e
         | Inr pw \<Rightarrow> Inr (ts, tfr_crop padding (length ts) pw)))"
  using dec
proof (elim disjE conjE)
  assume a: "decim = PyNone" "data = data0" "ts = times0" "r = sfreq dpl"
  show ?thesis unfolding a(2,3,4) by (simp add: plot_tfr_morlet_def g a(1))
next
  assume "decim \<noteq> PyNone"
    "decimate_plot_data lib decim data0 times0 (Some (sfreq dpl)) = Inr (data, ts, Some r)"
  then show ?thesis by (simp add: plot_tfr_morlet_def g)
qed

subsection \<open>C5: padding and cropping around the Morlet transform\<close>

text \<open>
  C5: let \<open>data\<close> and \<open>ts\<close> be the segment that \<open>plot_tfr_morlet\<close> extracts, through
  \<open>_get_plot_data\<close> and, when \<open>decim\<close> is given, through \<open>_decimate_plot_data\<close>, of equal
  length \<open>L \<ge> 1\<close>, and let \<open>padding\<close> be \<open>'zeros'\<close> or \<open>'mirror'\<close>. Then the padded signal is
  \<open>data\<close> between \<open>L - 1\<close> samples on each side, zeros or the mirror image of \<open>data\<close>, and the
  crop of the padded signal is \<open>data\<close> itself. The transform is called on exactly this padded
  signal: \<open>plot_tfr_morlet\<close> raises what the transform raises, and otherwise returns \<open>ts\<close>
  with every row of power cropped to the \<open>L\<close> samples from position \<open>L - 1\<close> on. When the
  rows of the transform have the padded length, the call returns and every returned row has
  length \<open>L\<close>, the length of \<open>ts\<close>.
\<close>

theorem tfr_pad_and_crop:
  assumes pad: "padding = PyStr ''zeros'' \<or> padding = PyStr ''mirror''"
    and g: "get_plot_data dpl layer tmin tmax 1 = Inr (data0, times0)"
    and dec: "decim = PyNone \<and> data = data0 \<and> ts = times0 \<and> r = sfreq dpl \<or>
              decim \<noteq> PyNone \<and>
              decimate_plot_data lib decim data0 times0 (Some (sfreq dpl)) = Inr (data, ts, Some r)"
    and len: "length ts = length data"
    and ne: "data \<noteq> []"
  shows "\<exists>pre post.
           length pre = length data - 1 \<and> length post = length data - 1 \<and>
           (padding = PyStr ''zeros'' \<longrightarrow> pre = replicate (length data - 1) 0 \<and>
                                         post = replicate (length data - 1) 0) \<and>
           (padding = PyStr ''mirror'' \<longrightarrow> pre = rev (tl data) \<and> post = rev (butlast data)) \<and>
           tfr_pad padding data = Inr (pre @ data @ post) \<and>
           tfr_crop padding (length ts) [pre @ data @ post] = [data] \<and>
           plot_tfr_morlet lib dpl freqs n_cycles tmin tmax layer decim padding =
             (case mne_tfr_array_morlet lib (pre @ data @ post) r freqs n_cycles of
                Inl e \<Rightarrow> Inl e
              | Inr pw \<Rightarrow>
                  Inr (ts, map (\<lambda>row. take (length data) (drop (length data - 1) row)) pw)) \<and>
           (\<forall>pw. mne_tfr_array_morlet lib (pre @ data @ post) r freqs n_cycles = Inr pw \<and>
                 list_all (\<lambda>row. length row = length (pre @ data @ post)) pw
                 \<longrightarrow> (\<exists>tfr. plot_tfr_morlet lib dpl freqs n_cycles tmin tmax layer decim padding
                              = Inr (ts, tfr) \<and>
                            length tfr = length pw \<and>
                            list_all (\<lambda>row. length row = length data) tfr))"
proof -
  let ?L = "length data"
  let ?pre = "if padding = PyStr ''zeros'' then replicate (?L - 1) 0 else rev (tl data)"
  let ?post = "if padding = PyStr ''zeros'' then replicate (?L - 1) 0 else rev (butlast data)"
  let ?crop = "\<lambda>row :: real list. take ?L (drop (?L - 1) row)"
  have L: "1 \<le> ?L" using ne by (cases data) simp_all
  have shape: "tfr_pad padding data = Inr (?pre @ data @ ?post)"
    by (rule tfr_pad_shape [OF pad ne])
  have lpre: "length ?pre = ?L - 1" and lpost: "length ?post = ?L - 1"
    by simp_all
  have notnone: "padding \<noteq> PyNone" using pad by auto
  have crop_eq: "tfr_crop padding (length ts) pw = map ?crop pw" for pw
    using notnone by (simp add: tfr_crop_def len py_slice_take_drop [OF L])
  have crop1: "tfr_crop padding (length ts) [?pre @ data @ ?post] = [data]"
    unfolding crop_eq using lpre by simp
  have run: "plot_tfr_morlet lib dpl freqs n_cycles tmin tmax layer decim padding =
             (case mne_tfr_array_morlet lib (?pre @ data @ ?post) r freqs n_cycles of
                Inl e \<Rightarrow> Inl e
              | Inr pw \<Rightarrow> Inr (ts, map ?crop pw))"
  proof (cases "mne_tfr_array_morlet lib (?pre @ data @ ?post) r freqs n_cycles")
    case (Inl e)
    show ?thesis
      unfolding plot_tfr_morlet_stages [OF g dec] shape by (simp only: Inl sum.case)
  next
    case (Inr pw)
    show ?thesis
      unfolding plot_tfr_morlet_stages [OF g dec] shape by (simp only: Inr sum.case crop_eq)
  qed
  have total: "length (?pre @ data @ ?post) = 3 * ?L - 2"
    using L lpre lpost by (simp del: length_replicate length_rev)
  have rows: "\<forall>pw. mne_tfr_array_morlet lib (?pre @ data @ ?post) r freqs n_cycles = Inr pw \<and>
                 list_all (\<lambda>row. length row = length (?pre @ data @ ?post)) pw
                 \<longrightarrow> (\<exists>tfr. plot_tfr_morlet lib dpl freqs n_cycles tmin tmax layer decim padding
                              = Inr (ts, tfr) \<and>
                            length tfr = length pw \<and>
                            list_all (\<lambda>row. length row = ?L) tfr)"
  proof (intro allI impI)
    fix pw
    assume a: "mne_tfr_array_morlet lib (?pre @ data @ ?post) r freqs n_cycles = Inr pw \<and>
                 list_all (\<lambda>row. length row = length (?pre @ data @ ?post)) pw"
    then have "\<forall>row \<in> set pw. length row = 3 * ?L - 2"
      unfolding total by (simp add: list_all_iff)
    then have "list_all (\<lambda>row. length row = ?L) (map ?crop pw)"
      using L by (auto simp: list_all_iff)
    moreover have "plot_tfr_morlet lib dpl freqs n_cycles tmin tmax layer decim padding
        = Inr (ts, map ?crop pw)"
      unfolding run using a by simp
    ultimately show "\<exists>tfr. plot_tfr_morlet lib dpl freqs n_cycles tmin tmax layer decim padding
                              = Inr (ts, tfr) \<and>
                            length tfr = length pw \<and>
                            list_all (\<lambda>row. length row = ?L) tfr"
      by simp
  qed
  have zeros: "padding = PyStr ''zeros'' \<longrightarrow> ?pre = replicate (?L - 1) 0 \<and>
                                            ?post = replicate (?L - 1) 0"
    by simp
  have mirror: "padding = PyStr ''mirror'' \<longrightarrow> ?pre = rev (tl data) \<and> ?post = rev (butlast data)"
    by simp
  from lpre lpost zeros mirror shape crop1 run rows show ?thesis
    by blast
qed

text \<open>C5 on the four-sample Dipole, of which three samples are extracted, for both paddings.
  The transform of the library depends on the position, so the power of the padded signal
  differs from the power of the segment alone, which would be 25, 59, 101.\<close>

theorem tfr_pad_and_crop_witness:
  "get_plot_data dpl_ramp4 ''agg'' None None 1 = Inr ([5, 7, 9], [0, 1, 2]) \<and>
   tfr_pad (PyStr ''zeros'') [5, 7, 9] = Inr [0, 0, 5, 7, 9, 0, 0] \<and>
   mne_tfr_array_morlet lib_plain [0, 0, 5, 7, 9, 0, 0] 1000 [10] [7]
     = Inr [[0, 10, 45, 79, 121, 50, 60]] \<and>
   plot_tfr_morlet lib_plain dpl_ramp4 [10] [7] None None ''agg'' PyNone (PyStr ''zeros'')
     = Inr ([0, 1, 2], [[45, 79, 121]]) \<and>
   tfr_pad (PyStr ''mirror'') [5, 7, 9] = Inr [9, 7, 5, 7, 9, 7, 5] \<and>
   mne_tfr_array_morlet lib_plain [9, 7, 5, 7, 9, 7, 5] 1000 [10] [7]
     = Inr [[81, 59, 45, 79, 121, 99, 85]] \<and>
   plot_tfr_morlet lib_plain dpl_ramp4 [10] [7] None None ''agg'' PyNone (PyStr ''mirror'')
     = Inr ([0, 1, 2], [[45, 79, 121]])"
proof -
  have z: "PyStr ''zeros'' = PyStr ''zeros'' \<or> PyStr ''zeros'' = PyStr ''mirror''" by simp
  have m: "PyStr ''mirror'' = PyStr ''zeros'' \<or> PyStr ''mirror'' = PyStr ''mirror''" by simp
  have g: "get_plot_data dpl_ramp4 ''agg'' None None 1 = Inr ([5, 7, 9], [0, 1, 2])"
    by (simp add: get_plot_data_def dpl_ramp4_def data_get_def)
  have d: "PyNone = PyNone \<and> [5, 7, 9] = [5, 7, 9 :: real] \<and> [0, 1, 2] = [0, 1, 2 :: real] \<and>
           (1000 :: real) = sfreq dpl_ramp4 \<or>
           PyNone \<noteq> PyNone \<and>
           decimate_plot_data lib_plain PyNone [5, 7, 9] [0, 1, 2] (Some (sfreq dpl_ramp4))
             = Inr ([5, 7, 9], [0, 1, 2], Some 1000)"
    by (simp add: dpl_ramp4_def)
  have l: "length [0, 1, 2 :: real] = length [5, 7, 9 :: real]" by simp
  have ne: "[5, 7, 9 :: real] \<noteq> []" by simp
  have tz: "mne_tfr_array_morlet lib_plain [0, 0, 5, 7, 9, 0, 0] 1000 [10] [7]
     = Inr [[0, 10, 45, 79, 121, 50, 60]]"
    by (simp add: lib_plain_def upt_rec)
  have tm: "mne_tfr_array_morlet lib_plain [9, 7, 5, 7, 9, 7, 5] 1000 [10] [7]
     = Inr [[81, 59, 45, 79, 121, 99, 85]]"
    by (simp add: lib_plain_def upt_rec)
  from tfr_pad_and_crop [OF z g d l ne, of "[10]" "[7]"] tz
  have 1: "tfr_pad (PyStr ''zeros'') [5, 7, 9] = Inr [0, 0, 5, 7, 9, 0, 0] \<and>
    plot_tfr_morlet lib_plain dpl_ramp4 [10] [7] None None ''agg'' PyNone (PyStr ''zeros'')
     = Inr ([0, 1, 2], [[45, 79, 121]])"
    by (auto simp: numeral_2_eq_2)
  from tfr_pad_and_crop [OF m g d l ne, of "[10]" "[7]"] tm
  have 2: "tfr_pad (PyStr ''mirror'') [5, 7, 9] = Inr [9, 7, 5, 7, 9, 7, 5] \<and>
    plot_tfr_morlet lib_plain dpl_ramp4 [10] [7] None None ''agg'' PyNone (PyStr ''mirror'')
     = Inr ([0, 1, 2], [[45, 79, 121]])"
    by (auto simp: numeral_2_eq_2)
  from g tz tm 1 2 show ?thesis by simp
qed

subsection \<open>The loop over the decimation factors\<close>








subsection \<open>C8: the decimation factors\<close>



end
